theory Spec2Isabelle
  imports Main "HOL-Library.AList"
begin

section \<open>JavaScript values\<close>

text \<open>
  The server (\<^verbatim>\<open>src/server.js\<close>) is an Express application: an authentication
  middleware (\<^verbatim>\<open>authenticate\<close>), a documentation route, two public status routes and
  fifteen protected routes, each of which builds one call to the GitHub client (Octokit) and
  wraps the outcome in a JSON envelope. The embedding below follows the handlers line by line. The middleware
  that Express runs before the routes (helmet, the rate limiter, CORS, the body parsers),
  Express's path matching and Octokit itself are libraries and are not modelled: a request
  is the record Express hands to a route, and the upstream client is a function from the
  call the handler builds to its outcome.

  A JavaScript number is a double. The numbers the handlers compute with are integers
  (the results of \<^verbatim>\<open>parseInt\<close>, array lengths, HTTP status codes), so a number is
  \<open>NaN\<close>, an integer that a double holds exactly, or \<open>HugeNum neg\<close>: a double of
  magnitude above \<open>2^53\<close> (rounded, or infinite) whose exact value is not modelled, negative
  when \<open>neg\<close> holds. Non-integral numbers occur only inside request bodies and upstream
  payloads, which the handlers pass on without looking inside; they are not represented.
  A string is a list of 8-bit characters.
\<close>

datatype jsnum = NaN | IntNum int | HugeNum bool

datatype jsval =
    JUndef
  | JNull
  | JBool bool
  | JNum jsnum
  | JStr string
  | JArr "jsval list"
  | JObj "(string \<times> jsval) list"

text \<open>An object is an association list; a property read takes the first entry of a key
  and gives \<^verbatim>\<open>undefined\<close> for a key that is not there.\<close>

type_synonym js_object = "(string \<times> jsval) list"

definition js_get :: "js_object \<Rightarrow> string \<Rightarrow> jsval" where
  "js_get obj k = (case map_of obj k of None \<Rightarrow> JUndef | Some v \<Rightarrow> v)"

text \<open>JavaScript truthiness (\<^verbatim>\<open>ToBoolean\<close>).\<close>

fun truthy :: "jsval \<Rightarrow> bool" where
  "truthy JUndef = False"
| "truthy JNull = False"
| "truthy (JBool b) = b"
| "truthy (JNum n) = (n \<noteq> NaN \<and> n \<noteq> IntNum 0)"
| "truthy (JStr s) = (s \<noteq> [])"
| "truthy (JArr xs) = True"
| "truthy (JObj kvs) = True"

text \<open>\<^verbatim>\<open>a || b\<close>\<close>

definition js_or :: "jsval \<Rightarrow> jsval \<Rightarrow> jsval" where
  "js_or a b = (if truthy a then a else b)"

text \<open>\<^verbatim>\<open>Math.min(a, b)\<close> on two numbers.\<close>

fun math_min :: "jsnum \<Rightarrow> jsnum \<Rightarrow> jsnum" where
  "math_min NaN b = NaN"
| "math_min a NaN = NaN"
| "math_min (HugeNum True) b = HugeNum True"
| "math_min a (HugeNum True) = HugeNum True"
| "math_min (HugeNum False) b = b"
| "math_min a (HugeNum False) = a"
| "math_min (IntNum a) (IntNum b) = IntNum (min a b)"

subsection \<open>Own properties and object spread\<close>

fun digit_char :: "nat \<Rightarrow> char" where
  "digit_char n = char_of (48 + n)"

fun show_nat :: "nat \<Rightarrow> string" where
  "show_nat n = (if n < 10 then [digit_char n] else show_nat (n div 10) @ [digit_char (n mod 10)])"

text \<open>The own enumerable properties that \<^verbatim>\<open>{...v}\<close> copies: the entries of an
  object, the indexed elements of an array, the characters of a string, and nothing for the
  other values (\<^verbatim>\<open>undefined\<close> and \<^verbatim>\<open>null\<close> included).\<close>

fun own_entries :: "jsval \<Rightarrow> js_object" where
  "own_entries (JObj kvs) = kvs"
| "own_entries (JArr xs) = zip (map show_nat [0..<length xs]) xs"
| "own_entries (JStr s) = zip (map show_nat [0..<length s]) (map (\<lambda>c. JStr [c]) s)"
| "own_entries v = []"

text \<open>\<^verbatim>\<open>{ ...base, ...v }\<close>: the entries of \<open>base\<close>, each overwritten in place by the
  entry of the same key in \<open>v\<close>, followed by the entries of \<open>v\<close> under new keys.\<close>

definition spread :: "js_object \<Rightarrow> jsval \<Rightarrow> js_object" where
  "spread base v = AList.merge base (own_entries v)"

subsection \<open>Query strings and \<^verbatim>\<open>parseInt\<close>\<close>

text \<open>\<^verbatim>\<open>req.query\<close> is built by Express's query parser (qs): a value is a string, an
  array (\<^verbatim>\<open>?a=1&a=2\<close>, \<^verbatim>\<open>?a[]=1\<close>) or an object (\<^verbatim>\<open>?a[b]=1\<close>).\<close>

datatype qsval = QStr string | QArr "qsval list" | QObj "(string \<times> qsval) list"

primrec qs_to_js :: "qsval \<Rightarrow> jsval" where
  "qs_to_js (QStr s) = JStr s"
| "qs_to_js (QArr xs) = JArr (map qs_to_js xs)"
| "qs_to_js (QObj kvs) = JObj (map (map_prod id qs_to_js) kvs)"

fun join_comma :: "string list \<Rightarrow> string" where
  "join_comma [] = []"
| "join_comma [s] = s"
| "join_comma (s # t # ss) = s @ '','' @ join_comma (t # ss)"

text \<open>\<^verbatim>\<open>ToString\<close> of a query value.\<close>

primrec qs_toString :: "qsval \<Rightarrow> string" where
  "qs_toString (QStr s) = s"
| "qs_toString (QArr xs) = join_comma (map qs_toString xs)"
| "qs_toString (QObj kvs) = ''[object Object]''"

definition is_white_space :: "char \<Rightarrow> bool" where
  "is_white_space c = ((of_char c :: nat) \<in> {9, 10, 11, 12, 13, 32, 160})"

definition digit_value :: "char \<Rightarrow> nat option" where
  "digit_value c =
     (let n = (of_char c :: nat) in
      if 48 \<le> n \<and> n \<le> 57 then Some (n - 48)
      else if 97 \<le> n \<and> n \<le> 122 then Some (n - 87)
      else if 65 \<le> n \<and> n \<le> 90 then Some (n - 55)
      else None)"

definition is_radix_digit :: "nat \<Rightarrow> char \<Rightarrow> bool" where
  "is_radix_digit R c = (case digit_value c of None \<Rightarrow> False | Some d \<Rightarrow> d < R)"

definition digits_value :: "nat \<Rightarrow> string \<Rightarrow> int" where
  "digits_value R ds = foldl (\<lambda>acc c. acc * int R + int (the (digit_value c))) 0 ds"

text \<open>\<^verbatim>\<open>parseInt(string)\<close> with no radix: leading white space is skipped, a sign is
  read, a \<^verbatim>\<open>0x\<close> prefix selects radix 16, and the longest prefix of digits is the
  value; no digit gives \<open>NaN\<close>.\<close>

definition parseInt_string :: "string \<Rightarrow> jsnum" where
  "parseInt_string inputString =
     (let S = dropWhile is_white_space inputString;
          neg = (S \<noteq> [] \<and> hd S = CHR ''-'');
          S1 = (if S \<noteq> [] \<and> (hd S = CHR ''+'' \<or> hd S = CHR ''-'') then tl S else S);
          hex = (take 2 S1 = ''0x'' \<or> take 2 S1 = ''0X'');
          R = (if hex then 16 else 10);
          S2 = (if hex then drop 2 S1 else S1);
          Z = takeWhile (is_radix_digit R) S2
      in if Z = [] then NaN
         else let mathInt = digits_value R Z in
           if mathInt > 2 ^ 53 then HugeNum neg
           else IntNum (if neg then - mathInt else mathInt))"

text \<open>\<^verbatim>\<open>parseInt(req.query.x)\<close>: an absent parameter is \<^verbatim>\<open>undefined\<close>, whose
  string is \<^verbatim>\<open>"undefined"\<close>.\<close>

definition parseInt :: "qsval option \<Rightarrow> jsnum" where
  "parseInt v = parseInt_string (case v of None \<Rightarrow> ''undefined'' | Some q \<Rightarrow> qs_toString q)"


text \<open>\<^verbatim>\<open>n || d\<close> on numbers: \<open>NaN\<close> and zero are falsy.\<close>

definition num_or :: "jsnum \<Rightarrow> jsnum \<Rightarrow> jsnum" where
  "num_or n d = (if truthy (JNum n) then n else d)"

text \<open>\<^verbatim>\<open>s.toUpperCase()\<close> on the ASCII letters; \<^verbatim>\<open>req.method\<close> is an HTTP method
  token, which Node's parser delivers in ASCII.\<close>

definition upper_char :: "char \<Rightarrow> char" where
  "upper_char c =
     (let n = (of_char c :: nat) in if 97 \<le> n \<and> n \<le> 122 then char_of (n - 32) else c)"

definition toUpperCase :: "string \<Rightarrow> string" where
  "toUpperCase s = map upper_char s"

section \<open>Configuration, requests and responses\<close>

text \<open>The environment variables the server reads at start-up; an unset variable is
  \<open>None\<close>.\<close>

record environment =
  env_BACKEND_PASSWORD :: "string option"
  env_ACESS_TOKEN :: "string option"
  env_API_KEY :: "string option"
  env_NODE_ENV :: "string option"

text \<open>Truthiness of \<^verbatim>\<open>process.env.X\<close>: set, and not the empty string.\<close>

definition env_truthy :: "string option \<Rightarrow> bool" where
  "env_truthy v = (case v of None \<Rightarrow> False | Some s \<Rightarrow> s \<noteq> [])"

definition default_password :: string where
  "default_password = ''change-this-secure-password''"

definition BACKEND_PASSWORD :: "environment \<Rightarrow> string" where
  "BACKEND_PASSWORD env =
     (if env_truthy (env_BACKEND_PASSWORD env) then the (env_BACKEND_PASSWORD env)
      else default_password)"

definition GITHUB_TOKEN :: "environment \<Rightarrow> string option" where
  "GITHUB_TOKEN env = env_ACESS_TOKEN env"

definition API_KEY :: "environment \<Rightarrow> string option" where
  "API_KEY env = env_API_KEY env"

text \<open>\<^verbatim>\<open>let octokit; if (GITHUB_TOKEN) { octokit = new Octokit({auth: GITHUB_TOKEN, ...}) }\<close>:
  the client, named by the token it authenticates with, or \<open>None\<close> for
  \<^verbatim>\<open>undefined\<close>.\<close>

definition octokit :: "environment \<Rightarrow> string option" where
  "octokit env = (if env_truthy (GITHUB_TOKEN env) then GITHUB_TOKEN env else None)"

text \<open>The request as a route sees it. Header names are lower-cased by Node and header
  values are strings; \<open>params\<close> holds the route parameters Express extracted from the path
  (the wildcard of \<^verbatim>\<open>/github/api/*\<close> under the key \<^verbatim>\<open>0\<close>); \<open>body\<close> is what the
  body parsers left in \<^verbatim>\<open>req.body\<close> (the empty object when the request had no body).\<close>

record request =
  req_method :: string
  headers :: "(string \<times> string) list"
  query :: "(string \<times> qsval) list"
  params :: "(string \<times> string) list"
  body :: jsval
  authMethod :: "string option"

definition header :: "request \<Rightarrow> string \<Rightarrow> jsval" where
  "header req k = (case map_of (headers req) k of None \<Rightarrow> JUndef | Some s \<Rightarrow> JStr s)"

definition query_get :: "request \<Rightarrow> string \<Rightarrow> jsval" where
  "query_get req k = (case map_of (query req) k of None \<Rightarrow> JUndef | Some q \<Rightarrow> qs_to_js q)"

definition param :: "request \<Rightarrow> string \<Rightarrow> jsval" where
  "param req k = (case map_of (params req) k of None \<Rightarrow> JUndef | Some s \<Rightarrow> JStr s)"

text \<open>What \<^verbatim>\<open>res.status(code).json(obj)\<close> sends: the status code and the object given
  to \<^verbatim>\<open>res.json\<close> (\<^verbatim>\<open>res.json\<close> alone sends status 200).\<close>

record http_response =
  res_status :: int
  res_body :: jsval

section \<open>The Access Gate\<close>

text \<open>\<^verbatim>\<open>authenticate(req, res, next)\<close>, lines 71 to 92. \<open>Inr\<close> is \<^verbatim>\<open>next()\<close> with the
  request tagged; \<open>Inl\<close> is the response sent instead. \<open>now\<close> is the reading of the clock,
  \<^verbatim>\<open>new Date().toISOString()\<close>. The comparison \<^verbatim>\<open>===\<close> against a configured string
  holds for that very string only.\<close>

definition unauthorized :: "string \<Rightarrow> http_response" where
  "unauthorized now =
     \<lparr>res_status = 401,
      res_body = JObj
        [(''error'', JStr ''Unauthorized: Invalid credentials''),
         (''message'', JStr ''Provide password via x-password header/query or API key via x-api-key header/query''),
         (''timestamp'', JStr now)]\<rparr>"

definition authenticate :: "environment \<Rightarrow> string \<Rightarrow> request \<Rightarrow> http_response + request" where
  "authenticate env now req =
     (let password = js_or (header req ''x-password'') (query_get req ''password'');
          apiKey = js_or (header req ''x-api-key'') (query_get req ''api_key'')
      in if truthy password \<and> password = JStr (BACKEND_PASSWORD env) then
           Inr (req\<lparr>authMethod := Some ''password''\<rparr>)
         else if env_truthy (API_KEY env) \<and> truthy apiKey \<and> apiKey = JStr (the (API_KEY env)) then
           Inr (req\<lparr>authMethod := Some ''api_key''\<rparr>)
         else Inl (unauthorized now))"

section \<open>The public status routes\<close>

text \<open>What the handlers read of the Node process.\<close>

record process_info =
  proc_uptime :: jsval
  proc_memoryUsage :: jsval
  proc_version :: string
  proc_platform :: string

text \<open>\<^verbatim>\<open>app.get('/status', ...)\<close>, lines 204 to 214.\<close>

definition get_status :: "environment \<Rightarrow> process_info \<Rightarrow> string \<Rightarrow> request \<Rightarrow> http_response" where
  "get_status env proc now req =
     \<lparr>res_status = 200,
      res_body = JObj
        [(''status'', JStr ''healthy''),
         (''timestamp'', JStr now),
         (''uptime'', proc_uptime proc),
         (''memory_usage'', proc_memoryUsage proc),
         (''environment'',
            JStr (if env_truthy (env_NODE_ENV env) then the (env_NODE_ENV env) else ''development'')),
         (''github_token_configured'', JBool (env_truthy (GITHUB_TOKEN env))),
         (''api_key_configured'', JBool (env_truthy (API_KEY env)))]\<rparr>"

text \<open>\<^verbatim>\<open>app.get('/health', ...)\<close>, lines 216 to 238.\<close>

definition health_checks :: "environment \<Rightarrow> (string \<times> string) list" where
  "health_checks env =
     [(''server'', ''ok''),
      (''github_api'', if env_truthy (GITHUB_TOKEN env) then ''configured'' else ''not_configured''),
      (''authentication'',
         if BACKEND_PASSWORD env \<noteq> ''change-this-secure-password'' then ''secure''
         else ''default_password'')]"

definition overallHealthy :: "environment \<Rightarrow> bool" where
  "overallHealthy env =
     list_all (\<lambda>check. check = ''ok'' \<or> check = ''configured'' \<or> check = ''secure'')
       (map snd (health_checks env))"

definition get_health :: "environment \<Rightarrow> process_info \<Rightarrow> string \<Rightarrow> request \<Rightarrow> http_response" where
  "get_health env proc now req =
     \<lparr>res_status = (if overallHealthy env then 200 else 503),
      res_body = JObj
        [(''status'', JStr ''healthy''),
         (''timestamp'', JStr now),
         (''checks'', JObj (map (map_prod id JStr) (health_checks env))),
         (''system'', JObj
            [(''uptime'', proc_uptime proc),
             (''memory'', proc_memoryUsage proc),
             (''node_version'', JStr (proc_version proc)),
             (''platform'', JStr (proc_platform proc))])]\<rparr>"

section \<open>The Forwarder\<close>

text \<open>The Octokit operations the routes call. A call is the operation with the parameter
  object it is given (\<^verbatim>\<open>undefined\<close> where the handler passes no argument).\<close>

datatype operation =
    UsersGetAuthenticated
  | ReposListForAuthenticatedUser
  | OrgsListForAuthenticatedUser
  | ReposGet
  | ReposGetContent
  | ReposListCommits
  | ReposListBranches
  | IssuesListForRepo
  | IssuesGet
  | IssuesCreate
  | IssuesUpdate
  | SearchRepos
  | RateLimitGet
  | Request

type_synonym outbound_call = "operation \<times> jsval"

text \<open>A thrown error as the \<^verbatim>\<open>catch\<close> blocks read it: \<^verbatim>\<open>error.status\<close> (absent on
  errors that are not Octokit's) and \<^verbatim>\<open>error.message\<close>.\<close>

record js_error =
  err_status :: "int option"
  err_message :: string

text \<open>The resolved value of an Octokit call: \<^verbatim>\<open>response.data\<close> and
  \<^verbatim>\<open>response.status\<close>.\<close>

record upstream_response =
  up_data :: jsval
  up_status :: int

text \<open>The client and the remote API behind it: a call is rejected with an error or
  resolves to a response.\<close>

type_synonym upstream = "outbound_call \<Rightarrow> js_error + upstream_response"

text \<open>A handler returns the response it sends and the outbound calls it made, in order.\<close>

type_synonym outcome = "http_response \<times> outbound_call list"

text \<open>\<^verbatim>\<open>return res.status(500).json({ error: 'GitHub token not configured' })\<close>\<close>

definition not_configured :: http_response where
  "not_configured =
     \<lparr>res_status = 500, res_body = JObj [(''error'', JStr ''GitHub token not configured'')]\<rparr>"

text \<open>\<^verbatim>\<open>error.status || 500\<close>\<close>

definition status_or_500 :: "js_error \<Rightarrow> int" where
  "status_or_500 error =
     (case err_status error of None \<Rightarrow> 500 | Some s \<Rightarrow> if s = 0 then 500 else s)"

text \<open>The \<^verbatim>\<open>catch\<close> block shared by the routes, and its variant in
  \<^verbatim>\<open>/github/user\<close> and \<^verbatim>\<open>/github/api/*\<close> that also reports \<^verbatim>\<open>error.status\<close>.\<close>

definition api_error :: "string \<Rightarrow> js_error \<Rightarrow> http_response" where
  "api_error now error =
     \<lparr>res_status = status_or_500 error,
      res_body = JObj
        [(''error'', JStr ''GitHub API Error''),
         (''message'', JStr (err_message error)),
         (''timestamp'', JStr now)]\<rparr>"

definition api_error_status :: "string \<Rightarrow> js_error \<Rightarrow> http_response" where
  "api_error_status now error =
     \<lparr>res_status = status_or_500 error,
      res_body = JObj
        [(''error'', JStr ''GitHub API Error''),
         (''message'', JStr (err_message error)),
         (''status'', case err_status error of None \<Rightarrow> JUndef | Some s \<Rightarrow> JNum (IntNum s)),
         (''timestamp'', JStr now)]\<rparr>"

text \<open>\<^verbatim>\<open>data.length\<close>: the number of elements of an array; reading a property of
  \<^verbatim>\<open>undefined\<close> or \<^verbatim>\<open>null\<close> throws a TypeError, which has no status.\<close>

definition js_length :: "jsval \<Rightarrow> js_error + jsval" where
  "js_length v =
     (case v of
        JArr xs \<Rightarrow> Inr (JNum (IntNum (int (length xs))))
      | JStr s \<Rightarrow> Inr (JNum (IntNum (int (length s))))
      | JObj kvs \<Rightarrow> Inr (js_get kvs ''length'')
      | JUndef \<Rightarrow> Inl \<lparr>err_status = None,
          err_message = ''Cannot read properties of undefined (reading 'length')''\<rparr>
      | JNull \<Rightarrow> Inl \<lparr>err_status = None,
          err_message = ''Cannot read properties of null (reading 'length')''\<rparr>
      | _ \<Rightarrow> Inr JUndef)"

text \<open>The page parameters, written the same way in every list route:
  \<^verbatim>\<open>Math.min(parseInt(req.query.per_page) || 30, 100)\<close> and
  \<^verbatim>\<open>parseInt(req.query.page) || 1\<close>.\<close>

definition per_page_of :: "qsval option \<Rightarrow> jsnum" where
  "per_page_of per_page = math_min (num_or (parseInt per_page) (IntNum 30)) (IntNum 100)"

definition page_of :: "qsval option \<Rightarrow> jsnum" where
  "page_of page = num_or (parseInt page) (IntNum 1)"

text \<open>The success envelopes: \<^verbatim>\<open>{success, data, timestamp}\<close> and
  \<^verbatim>\<open>{success, data, count: data.length, timestamp}\<close>.\<close>

definition ok_envelope :: "string \<Rightarrow> jsval \<Rightarrow> http_response" where
  "ok_envelope now data =
     \<lparr>res_status = 200,
      res_body = JObj
        [(''success'', JBool True), (''data'', data), (''timestamp'', JStr now)]\<rparr>"

definition list_envelope :: "string \<Rightarrow> jsval \<Rightarrow> jsval \<Rightarrow> http_response" where
  "list_envelope now data n =
     \<lparr>res_status = 200,
      res_body = JObj
        [(''success'', JBool True), (''data'', data), (''count'', n), (''timestamp'', JStr now)]\<rparr>"

text \<open>The body of the \<^verbatim>\<open>try\<close> block of a route that sends \<open>ok_envelope\<close>, and of one
  that sends \<open>list_envelope\<close>: the call, then the envelope, with any error caught.\<close>

definition forward :: "upstream \<Rightarrow> string \<Rightarrow> outbound_call \<Rightarrow> outcome" where
  "forward up now c =
     (case up c of
        Inl error \<Rightarrow> (api_error now error, [c])
      | Inr response \<Rightarrow> (ok_envelope now (up_data response), [c]))"

definition forward_list :: "upstream \<Rightarrow> string \<Rightarrow> outbound_call \<Rightarrow> outcome" where
  "forward_list up now c =
     (case up c of
        Inl error \<Rightarrow> (api_error now error, [c])
      | Inr response \<Rightarrow>
          (case js_length (up_data response) of
             Inl error \<Rightarrow> (api_error now error, [c])
           | Inr n \<Rightarrow> (list_envelope now (up_data response) n, [c])))"

subsection \<open>The protected route handlers\<close>

text \<open>Each handler is the function given to \<^verbatim>\<open>app.get\<close> (or \<^verbatim>\<open>post\<close>,
  \<^verbatim>\<open>patch\<close>, \<^verbatim>\<open>all\<close>) after \<^verbatim>\<open>authenticate\<close>, in the order of the file.\<close>

text \<open>\<^verbatim>\<open>GET /github/user\<close>, lines 241 to 261.\<close>

definition github_user :: "environment \<Rightarrow> upstream \<Rightarrow> string \<Rightarrow> request \<Rightarrow> outcome" where
  "github_user env up now req =
     (if octokit env = None then (not_configured, [])
      else let c = (UsersGetAuthenticated, JUndef) in
        case up c of
          Inl error \<Rightarrow> (api_error_status now error, [c])
        | Inr response \<Rightarrow> (ok_envelope now (up_data response), [c]))"

text \<open>\<^verbatim>\<open>GET /github/user/repos\<close>, lines 263 to 291.\<close>

definition github_user_repos :: "environment \<Rightarrow> upstream \<Rightarrow> string \<Rightarrow> request \<Rightarrow> outcome" where
  "github_user_repos env up now req =
     (if octokit env = None then (not_configured, [])
      else forward_list up now
        (ReposListForAuthenticatedUser, JObj
          [(''sort'', js_or (query_get req ''sort'') (JStr ''updated'')),
           (''direction'', js_or (query_get req ''direction'') (JStr ''desc'')),
           (''per_page'', JNum (per_page_of (map_of (query req) ''per_page''))),
           (''page'', JNum (page_of (map_of (query req) ''page''))),
           (''visibility'', js_or (query_get req ''visibility'') (JStr ''all'')),
           (''type'', js_or (query_get req ''type'') (JStr ''all''))]))"

text \<open>\<^verbatim>\<open>GET /github/user/orgs\<close>, lines 293 to 317.\<close>

definition github_user_orgs :: "environment \<Rightarrow> upstream \<Rightarrow> string \<Rightarrow> request \<Rightarrow> outcome" where
  "github_user_orgs env up now req =
     (if octokit env = None then (not_configured, [])
      else forward_list up now
        (OrgsListForAuthenticatedUser, JObj
          [(''per_page'', JNum (per_page_of (map_of (query req) ''per_page''))),
           (''page'', JNum (page_of (map_of (query req) ''page'')))]))"

text \<open>\<^verbatim>\<open>GET /github/repos\<close>, lines 320 to 351; its envelope also reports the page.\<close>

definition github_repos :: "environment \<Rightarrow> upstream \<Rightarrow> string \<Rightarrow> request \<Rightarrow> outcome" where
  "github_repos env up now req =
     (if octokit env = None then (not_configured, [])
      else let c = (ReposListForAuthenticatedUser, JObj
                 [(''sort'', js_or (query_get req ''sort'') (JStr ''updated'')),
                  (''direction'', js_or (query_get req ''direction'') (JStr ''desc'')),
                  (''per_page'', JNum (per_page_of (map_of (query req) ''per_page''))),
                  (''page'', JNum (page_of (map_of (query req) ''page''))),
                  (''visibility'', js_or (query_get req ''visibility'') (JStr ''all''))]) in
        case up c of
          Inl error \<Rightarrow> (api_error now error, [c])
        | Inr response \<Rightarrow>
            (case js_length (up_data response) of
               Inl error \<Rightarrow> (api_error now error, [c])
             | Inr n \<Rightarrow>
                 (\<lparr>res_status = 200,
                   res_body = JObj
                     [(''success'', JBool True),
                      (''data'', up_data response),
                      (''count'', n),
                      (''pagination'', JObj
                         [(''page'', JNum (page_of (map_of (query req) ''page''))),
                          (''per_page'', JNum (per_page_of (map_of (query req) ''per_page'')))]),
                      (''timestamp'', JStr now)]\<rparr>, [c])))"

text \<open>\<^verbatim>\<open>GET /github/repo/:owner/:repo\<close>, lines 353 to 377.\<close>

definition github_repo :: "environment \<Rightarrow> upstream \<Rightarrow> string \<Rightarrow> request \<Rightarrow> outcome" where
  "github_repo env up now req =
     (if octokit env = None then (not_configured, [])
      else forward up now
        (ReposGet, JObj [(''owner'', param req ''owner''), (''repo'', param req ''repo'')]))"

text \<open>\<^verbatim>\<open>GET /github/repo/:owner/:repo/contents/:path(*)?\<close>, lines 379 to 405.\<close>

definition github_repo_contents :: "environment \<Rightarrow> upstream \<Rightarrow> string \<Rightarrow> request \<Rightarrow> outcome" where
  "github_repo_contents env up now req =
     (if octokit env = None then (not_configured, [])
      else forward up now
        (ReposGetContent, JObj
          [(''owner'', param req ''owner''),
           (''repo'', param req ''repo''),
           (''path'', js_or (param req ''path'') (JStr [])),
           (''ref'', query_get req ''ref'')]))"

text \<open>\<^verbatim>\<open>GET /github/repo/:owner/:repo/commits\<close>, lines 407 to 439.\<close>

definition github_repo_commits :: "environment \<Rightarrow> upstream \<Rightarrow> string \<Rightarrow> request \<Rightarrow> outcome" where
  "github_repo_commits env up now req =
     (if octokit env = None then (not_configured, [])
      else forward_list up now
        (ReposListCommits, JObj
          [(''owner'', param req ''owner''),
           (''repo'', param req ''repo''),
           (''sha'', query_get req ''sha''),
           (''path'', query_get req ''path''),
           (''author'', query_get req ''author''),
           (''since'', query_get req ''since''),
           (''until'', query_get req ''until''),
           (''per_page'', JNum (per_page_of (map_of (query req) ''per_page''))),
           (''page'', JNum (page_of (map_of (query req) ''page'')))]))"

text \<open>\<^verbatim>\<open>GET /github/repo/:owner/:repo/branches\<close>, lines 441 to 469.\<close>

definition github_repo_branches :: "environment \<Rightarrow> upstream \<Rightarrow> string \<Rightarrow> request \<Rightarrow> outcome" where
  "github_repo_branches env up now req =
     (if octokit env = None then (not_configured, [])
      else forward_list up now
        (ReposListBranches, JObj
          [(''owner'', param req ''owner''),
           (''repo'', param req ''repo''),
           (''protected'', query_get req ''protected''),
           (''per_page'', JNum (per_page_of (map_of (query req) ''per_page''))),
           (''page'', JNum (page_of (map_of (query req) ''page'')))]))"

text \<open>\<^verbatim>\<open>GET /github/repo/:owner/:repo/issues\<close>, lines 472 to 504.\<close>

definition github_repo_issues :: "environment \<Rightarrow> upstream \<Rightarrow> string \<Rightarrow> request \<Rightarrow> outcome" where
  "github_repo_issues env up now req =
     (if octokit env = None then (not_configured, [])
      else forward_list up now
        (IssuesListForRepo, JObj
          [(''owner'', param req ''owner''),
           (''repo'', param req ''repo''),
           (''state'', js_or (query_get req ''state'') (JStr ''open'')),
           (''labels'', query_get req ''labels''),
           (''sort'', js_or (query_get req ''sort'') (JStr ''created'')),
           (''direction'', js_or (query_get req ''direction'') (JStr ''desc'')),
           (''since'', query_get req ''since''),
           (''per_page'', JNum (per_page_of (map_of (query req) ''per_page''))),
           (''page'', JNum (page_of (map_of (query req) ''page'')))]))"

text \<open>\<^verbatim>\<open>GET /github/repo/:owner/:repo/issues/:issue_number\<close>, lines 506 to 531.\<close>

definition github_issue :: "environment \<Rightarrow> upstream \<Rightarrow> string \<Rightarrow> request \<Rightarrow> outcome" where
  "github_issue env up now req =
     (if octokit env = None then (not_configured, [])
      else forward up now
        (IssuesGet, JObj
          [(''owner'', param req ''owner''),
           (''repo'', param req ''repo''),
           (''issue_number'',
              JNum (parseInt (map_option QStr (map_of (params req) ''issue_number''))))]))"

text \<open>\<^verbatim>\<open>POST /github/repo/:owner/:repo/issues\<close>, lines 533 to 573. Destructuring
  \<^verbatim>\<open>req.body\<close> throws when it is \<^verbatim>\<open>undefined\<close> or \<^verbatim>\<open>null\<close>, inside the
  \<^verbatim>\<open>try\<close> block; otherwise a name that is not a property of the body is
  \<^verbatim>\<open>undefined\<close>.\<close>

definition title_required :: "string \<Rightarrow> http_response" where
  "title_required now =
     \<lparr>res_status = 400,
      res_body = JObj
        [(''error'', JStr ''Validation Error''),
         (''message'', JStr ''Title is required''),
         (''timestamp'', JStr now)]\<rparr>"

definition github_create_issue :: "environment \<Rightarrow> upstream \<Rightarrow> string \<Rightarrow> request \<Rightarrow> outcome" where
  "github_create_issue env up now req =
     (if octokit env = None then (not_configured, [])
      else if body req = JUndef \<or> body req = JNull then
        (api_error now \<lparr>err_status = None,
           err_message = ''Cannot destructure property 'title' of 'req.body' as it is undefined.''\<rparr>, [])
      else let title = js_get (own_entries (body req)) ''title'';
               body' = js_get (own_entries (body req)) ''body'';
               labels = js_get (own_entries (body req)) ''labels'';
               assignees = js_get (own_entries (body req)) ''assignees'';
               milestone = js_get (own_entries (body req)) ''milestone''
        in if \<not> truthy title then (title_required now, [])
           else let c = (IssuesCreate, JObj
                      [(''owner'', param req ''owner''),
                       (''repo'', param req ''repo''),
                       (''title'', title),
                       (''body'', body'),
                       (''labels'', labels),
                       (''assignees'', assignees),
                       (''milestone'', milestone)]) in
             case up c of
               Inl error \<Rightarrow> (api_error now error, [c])
             | Inr response \<Rightarrow>
                 (\<lparr>res_status = 201,
                   res_body = JObj
                     [(''success'', JBool True),
                      (''data'', up_data response),
                      (''message'', JStr ''Issue created successfully''),
                      (''timestamp'', JStr now)]\<rparr>, [c]))"

text \<open>\<^verbatim>\<open>PATCH /github/repo/:owner/:repo/issues/:issue_number\<close>, lines 575 to 604: the
  body is spread after the fields taken from the path.\<close>

definition github_update_issue :: "environment \<Rightarrow> upstream \<Rightarrow> string \<Rightarrow> request \<Rightarrow> outcome" where
  "github_update_issue env up now req =
     (if octokit env = None then (not_configured, [])
      else let updateData = body req;
               c = (IssuesUpdate, JObj (spread
                      [(''owner'', param req ''owner''),
                       (''repo'', param req ''repo''),
                       (''issue_number'',
                          JNum (parseInt (map_option QStr (map_of (params req) ''issue_number''))))]
                      updateData)) in
        case up c of
          Inl error \<Rightarrow> (api_error now error, [c])
        | Inr response \<Rightarrow>
            (\<lparr>res_status = 200,
              res_body = JObj
                [(''success'', JBool True),
                 (''data'', up_data response),
                 (''message'', JStr ''Issue updated successfully''),
                 (''timestamp'', JStr now)]\<rparr>, [c]))"

text \<open>\<^verbatim>\<open>GET /github/search/repos\<close>, lines 607 to 643.\<close>

definition query_required :: "string \<Rightarrow> http_response" where
  "query_required now =
     \<lparr>res_status = 400,
      res_body = JObj
        [(''error'', JStr ''Validation Error''),
         (''message'', JStr ''Search query (q) parameter is required''),
         (''timestamp'', JStr now)]\<rparr>"

definition github_search_repos :: "environment \<Rightarrow> upstream \<Rightarrow> string \<Rightarrow> request \<Rightarrow> outcome" where
  "github_search_repos env up now req =
     (if octokit env = None then (not_configured, [])
      else let q = query_get req ''q'';
               sort = query_get req ''sort'';
               order = query_get req ''order'';
               per_page = map_of (query req) ''per_page'';
               page = map_of (query req) ''page''
        in if \<not> truthy q then (query_required now, [])
           else forward up now
             (SearchRepos, JObj
               [(''q'', q),
                (''sort'', sort),
                (''order'', order),
                (''per_page'', JNum (math_min (num_or (parseInt per_page) (IntNum 30)) (IntNum 100))),
                (''page'', JNum (num_or (parseInt page) (IntNum 1)))]))"

text \<open>\<^verbatim>\<open>GET /github/rate-limit\<close>, lines 646 to 665.\<close>

definition github_rate_limit :: "environment \<Rightarrow> upstream \<Rightarrow> string \<Rightarrow> request \<Rightarrow> outcome" where
  "github_rate_limit env up now req =
     (if octokit env = None then (not_configured, [])
      else forward up now (RateLimitGet, JUndef))"

text \<open>\<^verbatim>\<open>app.all('/github/api/*', ...)\<close>, lines 668 to 705: the generic proxy. The query
  is spread after \<^verbatim>\<open>method\<close> and \<^verbatim>\<open>url\<close>, and the body is assigned to
  \<^verbatim>\<open>requestConfig.data\<close> for the three methods that carry one.\<close>

definition requestConfig :: "request \<Rightarrow> js_object" where
  "requestConfig req =
     (let path = (case map_of (params req) ''0'' of None \<Rightarrow> ''undefined'' | Some p \<Rightarrow> p);
          method' = toUpperCase (req_method req);
          config = spread
            [(''method'', JStr method'), (''url'', JStr (''/'' @ path))]
            (JObj (map (map_prod id qs_to_js) (query req)))
      in if method' \<in> set [''POST'', ''PUT'', ''PATCH''] \<and> truthy (body req)
         then AList.update ''data'' (body req) config
         else config)"

definition github_api :: "environment \<Rightarrow> upstream \<Rightarrow> string \<Rightarrow> request \<Rightarrow> outcome" where
  "github_api env up now req =
     (if octokit env = None then (not_configured, [])
      else let c = (Request, JObj (requestConfig req)) in
        case up c of
          Inl error \<Rightarrow> (api_error_status now error, [c])
        | Inr response \<Rightarrow>
            (\<lparr>res_status = 200,
              res_body = JObj
                [(''success'', JBool True),
                 (''data'', up_data response),
                 (''status'', JNum (IntNum (up_status response))),
                 (''timestamp'', JStr now)]\<rparr>, [c]))"

subsection \<open>The routes\<close>

datatype route =
    GithubUser
  | GithubUserRepos
  | GithubUserOrgs
  | GithubRepos
  | GithubRepo
  | GithubRepoContents
  | GithubRepoCommits
  | GithubRepoBranches
  | GithubRepoIssues
  | GithubIssue
  | GithubCreateIssue
  | GithubUpdateIssue
  | GithubSearchRepos
  | GithubRateLimit
  | GithubApi

fun handler :: "route \<Rightarrow> environment \<Rightarrow> upstream \<Rightarrow> string \<Rightarrow> request \<Rightarrow> outcome" where
  "handler GithubUser = github_user"
| "handler GithubUserRepos = github_user_repos"
| "handler GithubUserOrgs = github_user_orgs"
| "handler GithubRepos = github_repos"
| "handler GithubRepo = github_repo"
| "handler GithubRepoContents = github_repo_contents"
| "handler GithubRepoCommits = github_repo_commits"
| "handler GithubRepoBranches = github_repo_branches"
| "handler GithubRepoIssues = github_repo_issues"
| "handler GithubIssue = github_issue"
| "handler GithubCreateIssue = github_create_issue"
| "handler GithubUpdateIssue = github_update_issue"
| "handler GithubSearchRepos = github_search_repos"
| "handler GithubRateLimit = github_rate_limit"
| "handler GithubApi = github_api"

text \<open>A protected route runs \<^verbatim>\<open>authenticate\<close> first and its handler only after
  \<^verbatim>\<open>next()\<close>.\<close>

definition serve :: "route \<Rightarrow> environment \<Rightarrow> upstream \<Rightarrow> string \<Rightarrow> request \<Rightarrow> outcome" where
  "serve r env up now req =
     (case authenticate env now req of
        Inl response \<Rightarrow> (response, [])
      | Inr req' \<Rightarrow> handler r env up now req')"

section \<open>Reading responses, and sample inputs\<close>

text \<open>A field of the JSON object a response carries.\<close>

definition res_field :: "http_response \<Rightarrow> string \<Rightarrow> jsval" where
  "res_field response k = (case res_body response of JObj kvs \<Rightarrow> js_get kvs k | _ \<Rightarrow> JUndef)"

text \<open>Concrete environments, requests and upstream behaviours on which the theorems below
  are instantiated: a fully configured process and one with no variable set; requests that
  carry the password of \<open>sample_env\<close> in the \<^verbatim>\<open>x-password\<close> header; an upstream that
  rejects every call with 404, one whose error has no status, and one that resolves every
  call to a two-element array; and a reading of the process.\<close>

definition sample_env :: environment where
  "sample_env =
     \<lparr>env_BACKEND_PASSWORD = Some ''s3cret'', env_ACESS_TOKEN = Some ''ghp_example'',
      env_API_KEY = Some ''key-1'', env_NODE_ENV = None\<rparr>"

definition bare_env :: environment where
  "bare_env =
     \<lparr>env_BACKEND_PASSWORD = None, env_ACESS_TOKEN = None, env_API_KEY = None,
      env_NODE_ENV = None\<rparr>"

definition sample_request :: request where
  "sample_request =
     \<lparr>req_method = ''GET'', headers = [], query = [], params = [], body = JObj [],
      authMethod = None\<rparr>"

definition sample_post :: "jsval \<Rightarrow> request" where
  "sample_post b =
     \<lparr>req_method = ''POST'', headers = [(''x-password'', ''s3cret'')], query = [],
      params = [(''owner'', ''octo''), (''repo'', ''demo''), (''issue_number'', ''7'')],
      body = b, authMethod = None\<rparr>"

definition sample_get :: "(string \<times> qsval) list \<Rightarrow> request" where
  "sample_get q =
     \<lparr>req_method = ''GET'', headers = [(''x-password'', ''s3cret'')], query = q,
      params = [(''owner'', ''octo''), (''repo'', ''demo''), (''0'', ''user'')],
      body = JObj [], authMethod = None\<rparr>"

definition up_not_found :: upstream where
  "up_not_found c = Inl \<lparr>err_status = Some 404, err_message = ''Not Found''\<rparr>"

definition up_two_items :: upstream where
  "up_two_items c = Inr \<lparr>up_data = JArr [JStr ''a'', JStr ''b''], up_status = 200\<rparr>"

definition up_no_status :: upstream where
  "up_no_status c = Inl \<lparr>err_status = None, err_message = ''socket hang up''\<rparr>"

definition sample_process :: process_info where
  "sample_process =
     \<lparr>proc_uptime = JNum (IntNum 12), proc_memoryUsage = JObj [(''rss'', JNum (IntNum 50000000))],
      proc_version = ''v18.20.0'', proc_platform = ''linux''\<rparr>"

section \<open>Auxiliary facts\<close>

lemmas handler_defs =
  github_user_def github_user_repos_def github_user_orgs_def github_repos_def
  github_repo_def github_repo_contents_def github_repo_commits_def github_repo_branches_def
  github_repo_issues_def github_issue_def github_create_issue_def github_update_issue_def
  github_search_repos_def github_rate_limit_def github_api_def

lemmas parseInt_defs =
  parseInt_def parseInt_string_def is_white_space_def is_radix_digit_def digit_value_def
  digits_value_def

text \<open>The configured password is never the empty string: an empty
  \<^verbatim>\<open>BACKEND_PASSWORD\<close> falls back to the default.\<close>

lemma BACKEND_PASSWORD_nonempty: "BACKEND_PASSWORD env \<noteq> []"
  by (auto simp: BACKEND_PASSWORD_def env_truthy_def default_password_def split: option.splits)

text \<open>An admitted request differs from the incoming one in its tag only.\<close>

lemma authenticate_admits:
  assumes "authenticate env now req = Inr req'"
  shows "\<exists>m. req' = req\<lparr>authMethod := m\<rparr>"
  using assms by (auto simp: authenticate_def Let_def split: if_splits)

lemma query_get_authMethod [simp]: "query_get (req\<lparr>authMethod := m\<rparr>) k = query_get req k"
  by (simp add: query_get_def)

lemma param_authMethod [simp]: "param (req\<lparr>authMethod := m\<rparr>) k = param req k"
  by (simp add: param_def)

lemma serve_admitted:
  assumes "authenticate env now req = Inr req'"
  shows "serve r env up now req = handler r env up now req'"
    and "body req' = body req" and "query req' = query req" and "params req' = params req"
    and "req_method req' = req_method req"
    and "query_get req' k = query_get req k" and "param req' k = param req k"
  using assms authenticate_admits[OF assms] by (auto simp: serve_def)

lemma sample_password [simp]: "BACKEND_PASSWORD sample_env = ''s3cret''"
  by (simp add: BACKEND_PASSWORD_def sample_env_def env_truthy_def)

lemma sample_api_key [simp]: "API_KEY sample_env = Some ''key-1''"
  by (simp add: API_KEY_def sample_env_def)

lemma sample_octokit [simp]: "octokit sample_env = Some ''ghp_example''"
  by (simp add: octokit_def GITHUB_TOKEN_def sample_env_def env_truthy_def)

lemma bare_octokit [simp]: "octokit bare_env = None"
  by (simp add: octokit_def GITHUB_TOKEN_def bare_env_def env_truthy_def)

lemma bare_password [simp]: "BACKEND_PASSWORD bare_env = ''change-this-secure-password''"
  by (simp add: BACKEND_PASSWORD_def bare_env_def env_truthy_def default_password_def)

lemma sample_admitted:
  "map_of (headers req) ''x-password'' = Some ''s3cret'' \<Longrightarrow>
     authenticate sample_env now req = Inr (req\<lparr>authMethod := Some ''password''\<rparr>)"
  by (simp add: authenticate_def js_or_def header_def)

lemma sample_post_admitted:
  "authenticate sample_env now (sample_post b)
     = Inr ((sample_post b)\<lparr>authMethod := Some ''password''\<rparr>)"
  by (rule sample_admitted) (simp add: sample_post_def)

lemma sample_get_admitted:
  "authenticate sample_env now (sample_get q)
     = Inr ((sample_get q)\<lparr>authMethod := Some ''password''\<rparr>)"
  by (rule sample_admitted) (simp add: sample_get_def)

lemma handler_not_configured:
  "octokit env = None \<Longrightarrow> handler r env up now req = (not_configured, [])"
  by (cases r) (simp_all add: handler_defs)

text \<open>The page-size expression, by the cases of what \<^verbatim>\<open>parseInt\<close> returns.\<close>

lemma clamp_cases:
  "math_min (num_or n (IntNum 30)) (IntNum 100) =
     (case n of
        NaN \<Rightarrow> IntNum 30
      | IntNum n \<Rightarrow> if n = 0 then IntNum 30 else IntNum (min n 100)
      | HugeNum neg \<Rightarrow> if neg then HugeNum True else IntNum 100)"
  by (cases n) (simp_all add: num_or_def)

text \<open>A query parameter is falsy exactly when it is absent or the empty string.\<close>

lemma truthy_query_get:
  "truthy (query_get req k) \<longleftrightarrow>
     \<not> (map_of (query req) k = None \<or> map_of (query req) k = Some (QStr []))"
proof (cases "map_of (query req) k")
  case None
  then show ?thesis by (simp add: query_get_def)
next
  case (Some v)
  then show ?thesis by (cases v) (simp_all add: query_get_def)
qed

lemma search_without_q:
  assumes "octokit env \<noteq> None" and "\<not> truthy (query_get req ''q'')"
  shows "github_search_repos env up now req = (query_required now, [])"
  using assms by (auto simp: github_search_repos_def)

lemma search_with_q:
  assumes "octokit env \<noteq> None" and "truthy (query_get req ''q'')"
  shows "snd (github_search_repos env up now req) =
     [(SearchRepos, JObj
        [(''q'', query_get req ''q''),
         (''sort'', query_get req ''sort''),
         (''order'', query_get req ''order''),
         (''per_page'', JNum (math_min (num_or (parseInt (map_of (query req) ''per_page'')) (IntNum 30)) (IntNum 100))),
         (''page'', JNum (num_or (parseInt (map_of (query req) ''page'')) (IntNum 1)))])]"
  using assms by (auto simp: github_search_repos_def forward_def Let_def split: sum.splits)

lemma sample_serve:
  "serve r sample_env up now (sample_get q)
     = handler r sample_env up now ((sample_get q)\<lparr>authMethod := Some ''password''\<rparr>)"
  by (simp add: serve_def sample_get_admitted)

text \<open>The routes whose envelope carries \<^verbatim>\<open>count: data.length\<close> make exactly one call,
  and wrap an array payload unchanged.\<close>

lemma list_route_calls:
  assumes "octokit env \<noteq> None"
    and "r \<in> {GithubUserRepos, GithubUserOrgs, GithubRepos, GithubRepoCommits, GithubRepoBranches, GithubRepoIssues}"
  shows "\<exists>c. snd (handler r env up now req) = [c]"
  using assms
  by (auto simp: handler_defs forward_list_def Let_def split: sum.splits)

lemma list_route_success:
  assumes "octokit env \<noteq> None"
    and "r \<in> {GithubUserRepos, GithubUserOrgs, GithubRepos, GithubRepoCommits, GithubRepoBranches, GithubRepoIssues}"
    and "snd (handler r env up now req) = [c]"
    and "up c = Inr response" and "up_data response = JArr xs"
  shows "res_status (fst (handler r env up now req)) = 200
       \<and> res_field (fst (handler r env up now req)) ''success'' = JBool True
       \<and> res_field (fst (handler r env up now req)) ''data'' = JArr xs
       \<and> res_field (fst (handler r env up now req)) ''count'' = JNum (IntNum (int (length xs)))
       \<and> res_field (fst (handler r env up now req)) ''timestamp'' = JStr now"
  using assms
  by (auto simp: handler_defs forward_list_def js_length_def list_envelope_def res_field_def
      js_get_def Let_def split: sum.splits)

text \<open>No handler makes a second call, and a failed call always ends in the
  \<^verbatim>\<open>catch\<close> block.\<close>

lemma handler_calls_at_most_one: "length (snd (handler r env up now req)) \<le> 1"
  by (cases r)
     (auto simp: handler_defs forward_def forward_list_def Let_def split: sum.splits)

text \<open>With a client configured every handler makes its call, once its own validation
  (the title of a new issue, the query term of a search) has passed.\<close>

lemma handler_makes_call:
  assumes "octokit env \<noteq> None"
    and "r = GithubCreateIssue \<Longrightarrow>
           body req \<noteq> JUndef \<and> body req \<noteq> JNull \<and> truthy (js_get (own_entries (body req)) ''title'')"
    and "r = GithubSearchRepos \<Longrightarrow> truthy (query_get req ''q'')"
  shows "\<exists>c. snd (handler r env up now req) = [c]"
  using assms
  by (cases r)
     (auto simp: handler_defs forward_def forward_list_def Let_def split: sum.splits)

lemma handler_failure:
  assumes "snd (handler r env up now req) = [c]" and "up c = Inl error"
  shows "fst (handler r env up now req) = api_error now error
       \<or> fst (handler r env up now req) = api_error_status now error"
  using assms
  by (cases r)
     (auto simp: handler_defs forward_def forward_list_def Let_def split: sum.splits if_splits)

lemma error_envelope:
  assumes "response = api_error now error \<or> response = api_error_status now error"
  shows "res_status response = (case err_status error of None \<Rightarrow> 500 | Some s \<Rightarrow> if s = 0 then 500 else s)
       \<and> res_field response ''error'' = JStr ''GitHub API Error''
       \<and> res_field response ''message'' = JStr (err_message error)
       \<and> res_field response ''timestamp'' = JStr now"
  using assms
  by (auto simp: api_error_def api_error_status_def status_or_500_def res_field_def js_get_def)

text \<open>The client exists exactly when the token is set and not empty; \<^verbatim>\<open>/health\<close> is
  healthy exactly when it exists and the password is not the default.\<close>

lemma octokit_configured: "octokit env \<noteq> None \<longleftrightarrow> env_truthy (GITHUB_TOKEN env)"
  by (auto simp: octokit_def env_truthy_def split: option.splits)

lemma overallHealthy_iff:
  "overallHealthy env \<longleftrightarrow> octokit env \<noteq> None \<and> BACKEND_PASSWORD env \<noteq> default_password"
  unfolding octokit_configured
  by (simp add: overallHealthy_def health_checks_def default_password_def)

text \<open>Reading a property of a spread object, and of a mapped query.\<close>

lemma js_get_spread:
  "js_get (spread base v) k =
     (case map_of (own_entries v) k of Some x \<Rightarrow> x | None \<Rightarrow> js_get base k)"
  by (simp add: js_get_def spread_def merge_conv' map_add_def split: option.splits)

lemma map_of_map_prod:
  "map_of (map (map_prod id f) xs) k = map_option f (map_of xs k)"
  by (induction xs) auto

text \<open>What the generic proxy builds when the query has no parameter named
  \<^verbatim>\<open>method\<close>, \<^verbatim>\<open>url\<close> or \<^verbatim>\<open>data\<close>: the request's method and path, every
  query parameter, and the body under \<^verbatim>\<open>data\<close> for POST, PUT and PATCH.\<close>

lemma proxy_forwarding_without_reserved_keys:
  assumes "map_of (query req) ''method'' = None"
    and "map_of (query req) ''url'' = None"
    and "map_of (query req) ''data'' = None"
    and "map_of (params req) ''0'' = Some path"
  shows "js_get (requestConfig req) ''method'' = JStr (toUpperCase (req_method req))"
    and "js_get (requestConfig req) ''url'' = JStr (''/'' @ path)"
    and "map_of (query req) k = Some v \<Longrightarrow> js_get (requestConfig req) k = qs_to_js v"
    and "js_get (requestConfig req) ''data'' =
           (if toUpperCase (req_method req) \<in> {''POST'', ''PUT'', ''PATCH''} \<and> truthy (body req)
            then body req else JUndef)"
  using assms
  by (auto simp: requestConfig_def Let_def js_get_def spread_def merge_conv' map_add_def
      map_of_map_prod update_conv' split: option.splits)

section \<open>The Access Gate\<close>

text \<open>
  Claim C1. A request is rejected by \<^verbatim>\<open>authenticate\<close> whenever the password it supplies
  (the \<^verbatim>\<open>x-password\<close> header, or the \<^verbatim>\<open>password\<close> query parameter when the header
  is absent or empty) is not the configured password and, when an API key is configured, the
  key it supplies (\<^verbatim>\<open>x-api-key\<close> header, else \<^verbatim>\<open>api_key\<close> query parameter) is not
  the configured key: this covers credential fields that are absent, empty, wrong, or not
  even strings, and a wrong header that hides a right query value. Every rejection, whatever
  its cause, is the same response: status 401 and one fixed body, with the same
  \<^verbatim>\<open>error\<close> and \<^verbatim>\<open>message\<close> and the reading of the clock; no handler runs and no
  outbound call is made. Any two requests rejected at the same clock reading therefore get
  equal responses; nothing in the response depends on the request.
\<close>

theorem gate_rejects_uniformly:
  "(js_or (header req ''x-password'') (query_get req ''password'') \<noteq> JStr (BACKEND_PASSWORD env)
      \<and> (\<not> env_truthy (API_KEY env)
           \<or> js_or (header req ''x-api-key'') (query_get req ''api_key'') \<noteq> JStr (the (API_KEY env)))
    \<longrightarrow> authenticate env now req =
           Inl \<lparr>res_status = 401,
                res_body = JObj
                  [(''error'', JStr ''Unauthorized: Invalid credentials''),
                   (''message'', JStr ''Provide password via x-password header/query or API key via x-api-key header/query''),
                   (''timestamp'', JStr now)]\<rparr>)
   \<and> (\<forall>response. authenticate env now req = Inl response \<longrightarrow>
          response =
            \<lparr>res_status = 401,
             res_body = JObj
               [(''error'', JStr ''Unauthorized: Invalid credentials''),
                (''message'', JStr ''Provide password via x-password header/query or API key via x-api-key header/query''),
                (''timestamp'', JStr now)]\<rparr>
          \<and> serve r env up now req = (response, []))
   \<and> (\<forall>response response2.
          authenticate env now req = Inl response \<and> authenticate env now req2 = Inl response2 \<longrightarrow>
            response = response2)"
  using BACKEND_PASSWORD_nonempty[of env]
  by (auto simp: serve_def authenticate_def Let_def unauthorized_def env_truthy_def
      split: if_splits option.splits)

text \<open>Four rejected requests, one response: no credential at all; a wrong password in the
  header with an empty one in the query; a wrong API key with the password wrapped in an
  array (\<^verbatim>\<open>?password[]=s3cret\<close>); and a wrong password in the header that hides the
  right one in the query.\<close>

theorem gate_rejects_uniformly_witness:
  "authenticate sample_env ''2024-01-01T00:00:00.000Z'' sample_request
     = Inl (unauthorized ''2024-01-01T00:00:00.000Z'')
   \<and> authenticate sample_env ''2024-01-01T00:00:00.000Z''
        (sample_request\<lparr>headers := [(''x-password'', ''wrong'')], query := [(''password'', QStr [])]\<rparr>)
     = Inl (unauthorized ''2024-01-01T00:00:00.000Z'')
   \<and> authenticate sample_env ''2024-01-01T00:00:00.000Z''
        (sample_request\<lparr>headers := [(''x-api-key'', ''key-2'')], query := [(''password'', QArr [QStr ''s3cret''])]\<rparr>)
     = Inl (unauthorized ''2024-01-01T00:00:00.000Z'')
   \<and> authenticate sample_env ''2024-01-01T00:00:00.000Z''
        (sample_request\<lparr>headers := [(''x-password'', ''wrong'')], query := [(''password'', QStr ''s3cret'')]\<rparr>)
     = Inl (unauthorized ''2024-01-01T00:00:00.000Z'')"
  using gate_rejects_uniformly [where req = sample_request and env = sample_env
      and now = "''2024-01-01T00:00:00.000Z''", THEN conjunct1]
    gate_rejects_uniformly [where req = "sample_request\<lparr>headers := [(''x-password'', ''wrong'')], query := [(''password'', QStr [])]\<rparr>"
      and env = sample_env and now = "''2024-01-01T00:00:00.000Z''", THEN conjunct1]
    gate_rejects_uniformly [where req = "sample_request\<lparr>headers := [(''x-api-key'', ''key-2'')], query := [(''password'', QArr [QStr ''s3cret''])]\<rparr>"
      and env = sample_env and now = "''2024-01-01T00:00:00.000Z''", THEN conjunct1]
    gate_rejects_uniformly [where req = "sample_request\<lparr>headers := [(''x-password'', ''wrong'')], query := [(''password'', QStr ''s3cret'')]\<rparr>"
      and env = sample_env and now = "''2024-01-01T00:00:00.000Z''", THEN conjunct1]
  by (simp add: header_def query_get_def js_or_def sample_request_def unauthorized_def env_truthy_def)

text \<open>
  Claim C2. A request whose supplied password (the \<^verbatim>\<open>x-password\<close> header, or the
  \<^verbatim>\<open>password\<close> query parameter when the header is absent or empty) equals the configured
  password is admitted to the handler, whatever API key it carries; the password check
  comes first, so the request is tagged \<^verbatim>\<open>password\<close> also when a valid API key is
  supplied with it.
\<close>

theorem gate_admits_password:
  assumes "js_or (header req ''x-password'') (query_get req ''password'') = JStr (BACKEND_PASSWORD env)"
  shows "authenticate env now req = Inr (req\<lparr>authMethod := Some ''password''\<rparr>)
         \<and> serve r env up now req = handler r env up now (req\<lparr>authMethod := Some ''password''\<rparr>)"
  using assms BACKEND_PASSWORD_nonempty[of env] by (simp add: serve_def authenticate_def Let_def)

text \<open>A valid password with a valid API key, and a valid password in the query with a wrong
  API key: both admitted on the password.\<close>

theorem gate_admits_password_witness:
  "authenticate sample_env ''t''
     (sample_request\<lparr>headers := [(''x-password'', ''s3cret''), (''x-api-key'', ''key-1'')]\<rparr>)
     = Inr (sample_request\<lparr>headers := [(''x-password'', ''s3cret''), (''x-api-key'', ''key-1'')],
              authMethod := Some ''password''\<rparr>)
   \<and> authenticate sample_env ''t''
     (sample_request\<lparr>headers := [(''x-api-key'', ''bad'')], query := [(''password'', QStr ''s3cret'')]\<rparr>)
     = Inr (sample_request\<lparr>headers := [(''x-api-key'', ''bad'')], query := [(''password'', QStr ''s3cret'')],
              authMethod := Some ''password''\<rparr>)"
  using gate_admits_password [of "sample_request\<lparr>headers := [(''x-password'', ''s3cret''), (''x-api-key'', ''key-1'')]\<rparr>" sample_env "''t''"]
    gate_admits_password [of "sample_request\<lparr>headers := [(''x-api-key'', ''bad'')], query := [(''password'', QStr ''s3cret'')]\<rparr>" sample_env "''t''"]
  by (simp add: header_def query_get_def js_or_def sample_request_def)

section \<open>The Forwarder: configuration and validation\<close>



text \<open>
  Claim C4. With a client configured, an admitted issue-creation request whose body has no
  \<^verbatim>\<open>title\<close>, or the empty string as title, gets status 400 with the label
  \<^verbatim>\<open>Validation Error\<close> and no outbound call is made; one whose title is a non-empty
  string makes exactly one outbound call, \<^verbatim>\<open>issues.create\<close>, with the owner and
  repository of the path and the body's \<^verbatim>\<open>title\<close>, \<^verbatim>\<open>body\<close>, \<^verbatim>\<open>labels\<close>,
  \<^verbatim>\<open>assignees\<close> and \<^verbatim>\<open>milestone\<close> as they are (\<^verbatim>\<open>undefined\<close> where the body has
  none), whether the call then succeeds or fails.
\<close>

theorem create_issue_validation:
  assumes "authenticate env now req = Inr req'"
    and "octokit env \<noteq> None"
    and "body req \<noteq> JUndef" and "body req \<noteq> JNull"
  shows "(js_get (own_entries (body req)) ''title'' = JUndef
          \<or> js_get (own_entries (body req)) ''title'' = JStr [] \<longrightarrow>
            serve GithubCreateIssue env up now req = (title_required now, [])
            \<and> res_status (title_required now) = 400
            \<and> res_field (title_required now) ''error'' = JStr ''Validation Error'')
       \<and> (\<forall>t. js_get (own_entries (body req)) ''title'' = JStr t \<and> t \<noteq> [] \<longrightarrow>
            snd (serve GithubCreateIssue env up now req) =
              [(IssuesCreate, JObj
                 [(''owner'', param req ''owner''),
                  (''repo'', param req ''repo''),
                  (''title'', JStr t),
                  (''body'', js_get (own_entries (body req)) ''body''),
                  (''labels'', js_get (own_entries (body req)) ''labels''),
                  (''assignees'', js_get (own_entries (body req)) ''assignees''),
                  (''milestone'', js_get (own_entries (body req)) ''milestone'')])])"
  using assms(2-4)
  by (auto simp: serve_admitted[OF assms(1)] github_create_issue_def Let_def title_required_def
      res_field_def js_get_def split: sum.splits)

theorem create_issue_validation_witness:
  "serve GithubCreateIssue sample_env up_two_items ''t'' (sample_post (JObj [(''body'', JStr ''text'')]))
     = (title_required ''t'', [])
   \<and> serve GithubCreateIssue sample_env up_two_items ''t'' (sample_post (JObj [(''title'', JStr [])]))
     = (title_required ''t'', [])
   \<and> snd (serve GithubCreateIssue sample_env up_not_found ''t''
        (sample_post (JObj [(''title'', JStr ''Bug''), (''labels'', JArr [JStr ''bug''])])))
     = [(IssuesCreate, JObj
          [(''owner'', JStr ''octo''), (''repo'', JStr ''demo''), (''title'', JStr ''Bug''),
           (''body'', JUndef), (''labels'', JArr [JStr ''bug'']), (''assignees'', JUndef),
           (''milestone'', JUndef)])]"
proof -
  have c: "octokit sample_env \<noteq> None" by simp
  show ?thesis
    using create_issue_validation [OF sample_post_admitted c, of "JObj [(''body'', JStr ''text'')]" up_two_items]
      create_issue_validation [OF sample_post_admitted c, of "JObj [(''title'', JStr [])]" up_two_items]
      create_issue_validation [OF sample_post_admitted c, of "JObj [(''title'', JStr ''Bug''), (''labels'', JArr [JStr ''bug''])]" up_not_found]
    by (simp add: sample_post_def js_get_def param_def)
qed

text \<open>
  Claim C5, as the code has it. With a client configured, an admitted search request with no
  query term (\<^verbatim>\<open>q\<close> absent or empty) gets status 400 with the label
  \<^verbatim>\<open>Validation Error\<close> and no outbound call; every other admitted search request makes
  one call, \<^verbatim>\<open>search.repos\<close>, whose \<^verbatim>\<open>per_page\<close> is the smaller of \<open>n\<close> and 100, where
  \<open>n\<close> is the integer \<^verbatim>\<open>parseInt\<close> reads off the caller's \<^verbatim>\<open>per_page\<close>, and 30 stands
  in for \<open>n\<close> when the parameter is absent, when no integer can be read, and also when the
  integer read is 0. (Beyond \<open>2^53\<close> a positive value is clamped to 100 and a negative one is
  passed on.)
\<close>

theorem search_repos_per_page:
  assumes "authenticate env now req = Inr req'"
    and "octokit env \<noteq> None"
  shows "(if map_of (query req) ''q'' = None \<or> map_of (query req) ''q'' = Some (QStr [])
          then serve GithubSearchRepos env up now req = (query_required now, [])
               \<and> res_status (query_required now) = 400
               \<and> res_field (query_required now) ''error'' = JStr ''Validation Error''
          else \<exists>ps. snd (serve GithubSearchRepos env up now req) = [(SearchRepos, JObj ps)]
               \<and> js_get ps ''per_page'' = JNum
                    (case parseInt (map_of (query req) ''per_page'') of
                       NaN \<Rightarrow> IntNum 30
                     | IntNum n \<Rightarrow> if n = 0 then IntNum 30 else IntNum (min n 100)
                     | HugeNum neg \<Rightarrow> if neg then HugeNum True else IntNum 100))"
proof (cases "truthy (query_get req' ''q'')")
  case False
  then have "map_of (query req) ''q'' = None \<or> map_of (query req) ''q'' = Some (QStr [])"
    using truthy_query_get[of req' "''q''"] by (simp add: serve_admitted(3)[OF assms(1)])
  moreover have "serve GithubSearchRepos env up now req = (query_required now, [])"
    using search_without_q[OF assms(2) False] by (simp add: serve_admitted(1)[OF assms(1)])
  ultimately show ?thesis
    by (simp add: query_required_def res_field_def js_get_def)
next
  case True
  then have nq: "\<not> (map_of (query req) ''q'' = None \<or> map_of (query req) ''q'' = Some (QStr []))"
    using truthy_query_get[of req' "''q''"] by (simp add: serve_admitted(3)[OF assms(1)])
  have "snd (serve GithubSearchRepos env up now req) =
     [(SearchRepos, JObj
        [(''q'', query_get req' ''q''),
         (''sort'', query_get req' ''sort''),
         (''order'', query_get req' ''order''),
         (''per_page'', JNum (math_min (num_or (parseInt (map_of (query req) ''per_page'')) (IntNum 30)) (IntNum 100))),
         (''page'', JNum (num_or (parseInt (map_of (query req) ''page'')) (IntNum 1)))])]"
    using search_with_q[OF assms(2) True, of up now]
    by (simp add: serve_admitted(1,3)[OF assms(1)])
  then show ?thesis
    using nq by (auto simp: js_get_def clamp_cases)
qed

text \<open>No query term; a page size of 500, clamped to 100; no page size, 30.\<close>

theorem search_repos_per_page_witness:
  "serve GithubSearchRepos sample_env up_two_items ''t'' (sample_get [(''per_page'', QStr ''500'')])
     = (query_required ''t'', [])
   \<and> (\<exists>ps. snd (serve GithubSearchRepos sample_env up_two_items ''t''
          (sample_get [(''q'', QStr ''isabelle''), (''per_page'', QStr ''500'')])) = [(SearchRepos, JObj ps)]
        \<and> js_get ps ''per_page'' = JNum (IntNum 100))
   \<and> (\<exists>ps. snd (serve GithubSearchRepos sample_env up_two_items ''t''
          (sample_get [(''q'', QStr ''isabelle'')])) = [(SearchRepos, JObj ps)]
        \<and> js_get ps ''per_page'' = JNum (IntNum 30))"
proof -
  have c: "octokit sample_env \<noteq> None" by simp
  have p: "parseInt (Some (QStr ''500'')) = IntNum 500" "parseInt None = NaN"
    by (simp_all add: parseInt_defs)
  show ?thesis
    using search_repos_per_page [OF sample_get_admitted c, of "[(''per_page'', QStr ''500'')]" up_two_items]
      search_repos_per_page [OF sample_get_admitted c, of "[(''q'', QStr ''isabelle''), (''per_page'', QStr ''500'')]" up_two_items]
      search_repos_per_page [OF sample_get_admitted c, of "[(''q'', QStr ''isabelle'')]" up_two_items]
    by (simp add: sample_get_def p)
qed

text \<open>The claim as written fails at \<^verbatim>\<open>per_page=0\<close>: the parameter is present and numeric,
  the smaller of 0 and 100 is 0, and the call carries 30.\<close>

theorem search_repos_per_page_zero:
  "parseInt (Some (QStr ''0'')) = IntNum 0
   \<and> math_min (IntNum 0) (IntNum 100) = IntNum 0
   \<and> snd (serve GithubSearchRepos sample_env up_two_items ''t''
        (sample_get [(''q'', QStr ''isabelle''), (''per_page'', QStr ''0'')]))
     = [(SearchRepos, JObj
          [(''q'', JStr ''isabelle''), (''sort'', JUndef), (''order'', JUndef),
           (''per_page'', JNum (IntNum 30)), (''page'', JNum (IntNum 1))])]"
proof -
  have p: "parseInt (Some (QStr ''0'')) = IntNum 0" "parseInt None = NaN"
    by (simp_all add: parseInt_defs)
  show ?thesis
    unfolding sample_serve
    by (simp add: github_search_repos_def forward_def up_two_items_def
        query_get_def sample_get_def p num_or_def)
qed

section \<open>The Forwarder: envelopes\<close>

text \<open>
  Claim C6. The list routes are those whose envelope carries a count: the user's
  repositories (two routes), the user's organisations, and a repository's commits, branches
  and issues. With a client configured, each makes exactly one outbound call for an admitted
  request, and when that call resolves to an array of \<open>N\<close> items the response has status 200
  and an envelope with \<^verbatim>\<open>success\<close> true, \<^verbatim>\<open>data\<close> the array itself, \<^verbatim>\<open>count\<close>
  equal to \<open>N\<close>, and the clock reading as \<^verbatim>\<open>timestamp\<close>.
\<close>

theorem list_envelope_round_trip:
  assumes "authenticate env now req = Inr req'"
    and "octokit env \<noteq> None"
    and "r \<in> {GithubUserRepos, GithubUserOrgs, GithubRepos, GithubRepoCommits, GithubRepoBranches, GithubRepoIssues}"
  shows "(\<exists>c. snd (serve r env up now req) = [c])
       \<and> (\<forall>c response xs.
            snd (serve r env up now req) = [c] \<and> up c = Inr response \<and> up_data response = JArr xs \<longrightarrow>
              res_status (fst (serve r env up now req)) = 200
              \<and> res_field (fst (serve r env up now req)) ''success'' = JBool True
              \<and> res_field (fst (serve r env up now req)) ''data'' = JArr xs
              \<and> res_field (fst (serve r env up now req)) ''count'' = JNum (IntNum (int (length xs)))
              \<and> res_field (fst (serve r env up now req)) ''timestamp'' = JStr now)"
  using list_route_calls[OF assms(2,3), of up now req'] list_route_success[OF assms(2,3), of up now req']
  unfolding serve_admitted(1)[OF assms(1)] by blast

text \<open>Listing the issues of a repository when the upstream returns two items.\<close>

theorem list_envelope_round_trip_witness:
  "snd (serve GithubRepoIssues sample_env up_two_items ''t'' (sample_get [])) =
     [(IssuesListForRepo, JObj
        [(''owner'', JStr ''octo''), (''repo'', JStr ''demo''), (''state'', JStr ''open''),
         (''labels'', JUndef), (''sort'', JStr ''created''), (''direction'', JStr ''desc''),
         (''since'', JUndef), (''per_page'', JNum (IntNum 30)), (''page'', JNum (IntNum 1))])]
   \<and> res_status (fst (serve GithubRepoIssues sample_env up_two_items ''t'' (sample_get []))) = 200
   \<and> res_field (fst (serve GithubRepoIssues sample_env up_two_items ''t'' (sample_get []))) ''data''
       = JArr [JStr ''a'', JStr ''b'']
   \<and> res_field (fst (serve GithubRepoIssues sample_env up_two_items ''t'' (sample_get []))) ''count''
       = JNum (IntNum 2)"
proof -
  have c: "octokit sample_env \<noteq> None" by simp
  have p: "parseInt None = NaN" by (simp add: parseInt_defs)
  have calls: "snd (serve GithubRepoIssues sample_env up_two_items ''t'' (sample_get [])) =
     [(IssuesListForRepo, JObj
        [(''owner'', JStr ''octo''), (''repo'', JStr ''demo''), (''state'', JStr ''open''),
         (''labels'', JUndef), (''sort'', JStr ''created''), (''direction'', JStr ''desc''),
         (''since'', JUndef), (''per_page'', JNum (IntNum 30)), (''page'', JNum (IntNum 1))])]"
    unfolding sample_serve
    by (simp add: github_repo_issues_def forward_list_def up_two_items_def js_length_def
        param_def query_get_def js_or_def per_page_of_def page_of_def num_or_def p sample_get_def)
  have ok: "up_two_items c = Inr \<lparr>up_data = JArr [JStr ''a'', JStr ''b''], up_status = 200\<rparr>" for c
    by (simp add: up_two_items_def)
  have m: "GithubRepoIssues \<in> {GithubUserRepos, GithubUserOrgs, GithubRepos, GithubRepoCommits,
      GithubRepoBranches, GithubRepoIssues}"
    by simp
  note rt = list_envelope_round_trip [OF sample_get_admitted [of "''t''" "[]"] c m,
      where up = up_two_items, THEN conjunct2, rule_format, OF conjI [OF calls conjI [OF ok]]]
  have "res_status (fst (serve GithubRepoIssues sample_env up_two_items ''t'' (sample_get []))) = 200
     \<and> res_field (fst (serve GithubRepoIssues sample_env up_two_items ''t'' (sample_get []))) ''data''
         = JArr [JStr ''a'', JStr ''b'']
     \<and> res_field (fst (serve GithubRepoIssues sample_env up_two_items ''t'' (sample_get []))) ''count''
         = JNum (IntNum 2)"
    using rt [of "[JStr ''a'', JStr ''b'']"] by simp
  with calls show ?thesis by simp
qed

text \<open>
  Claim C7. On every protected route an admitted request leads to at most one outbound call
  on any path through the handler, so a failed call is never repeated. With a client
  configured the call is made: always on thirteen of the routes, and on issue creation and
  repository search once the title, respectively the query term, has passed validation.
  When the call made is rejected, the response status is the error's status code when it
  has one (0 is not a status code, and \<^verbatim>\<open>error.status || 500\<close> reads it as absent) and
  500 otherwise, and the body is the error envelope: the label \<^verbatim>\<open>GitHub API Error\<close>,
  the error's own message, and the clock reading. The failure is never answered with a
  success envelope.
\<close>

theorem upstream_failure_propagated:
  assumes "authenticate env now req = Inr req'"
  shows "length (snd (serve r env up now req)) \<le> 1
       \<and> (octokit env \<noteq> None
            \<and> (r = GithubCreateIssue \<longrightarrow>
                  body req \<noteq> JUndef \<and> body req \<noteq> JNull
                  \<and> truthy (js_get (own_entries (body req)) ''title''))
            \<and> (r = GithubSearchRepos \<longrightarrow> truthy (query_get req ''q''))
            \<longrightarrow> (\<exists>c. snd (serve r env up now req) = [c]))
       \<and> (\<forall>c error.
            snd (serve r env up now req) = [c] \<and> up c = Inl error \<longrightarrow>
              (err_status error = None \<longrightarrow> res_status (fst (serve r env up now req)) = 500)
              \<and> (\<forall>s. err_status error = Some s \<and> s \<noteq> 0 \<longrightarrow>
                    res_status (fst (serve r env up now req)) = s)
              \<and> res_field (fst (serve r env up now req)) ''error'' = JStr ''GitHub API Error''
              \<and> res_field (fst (serve r env up now req)) ''message'' = JStr (err_message error)
              \<and> res_field (fst (serve r env up now req)) ''timestamp'' = JStr now)"
proof -
  have "length (snd (handler r env up now req')) \<le> 1"
    by (rule handler_calls_at_most_one)
  moreover have "\<exists>c. snd (handler r env up now req') = [c]"
    if "octokit env \<noteq> None"
      and "r = GithubCreateIssue \<longrightarrow>
             body req \<noteq> JUndef \<and> body req \<noteq> JNull
             \<and> truthy (js_get (own_entries (body req)) ''title'')"
      and "r = GithubSearchRepos \<longrightarrow> truthy (query_get req ''q'')"
    using that by (intro handler_makes_call) (simp_all add: serve_admitted(2,6)[OF assms(1)])
  moreover have "(err_status error = None \<longrightarrow> res_status (fst (handler r env up now req')) = 500)
              \<and> (\<forall>s. err_status error = Some s \<and> s \<noteq> 0 \<longrightarrow>
                    res_status (fst (handler r env up now req')) = s)
              \<and> res_field (fst (handler r env up now req')) ''error'' = JStr ''GitHub API Error''
              \<and> res_field (fst (handler r env up now req')) ''message'' = JStr (err_message error)
              \<and> res_field (fst (handler r env up now req')) ''timestamp'' = JStr now"
    if "snd (handler r env up now req') = [c]" and "up c = Inl error" for c error
    using error_envelope[OF handler_failure[OF that]] by auto
  ultimately show ?thesis
    unfolding serve_admitted(1)[OF assms(1)] by blast
qed

text \<open>Reading the authenticated user when the upstream answers 404, and reading a
  repository when the error has no status: in both the call is made and its failure is the
  response.\<close>

theorem upstream_failure_propagated_witness:
  "snd (serve GithubUser sample_env up_not_found ''t'' (sample_get [])) = [(UsersGetAuthenticated, JUndef)]
   \<and> res_status (fst (serve GithubUser sample_env up_not_found ''t'' (sample_get []))) = 404
   \<and> res_field (fst (serve GithubUser sample_env up_not_found ''t'' (sample_get []))) ''message''
       = JStr ''Not Found''
   \<and> snd (serve GithubRepo sample_env up_no_status ''t'' (sample_get [])) =
       [(ReposGet, JObj [(''owner'', JStr ''octo''), (''repo'', JStr ''demo'')])]
   \<and> res_status (fst (serve GithubRepo sample_env up_no_status ''t'' (sample_get []))) = 500
   \<and> res_field (fst (serve GithubRepo sample_env up_no_status ''t'' (sample_get []))) ''message''
       = JStr ''socket hang up''"
proof -
  have c: "octokit sample_env \<noteq> None" by simp
  have made1: "\<exists>c. snd (serve GithubUser sample_env up_not_found ''t'' (sample_get [])) = [c]"
    using upstream_failure_propagated [OF sample_get_admitted [of "''t''" "[]"],
        where r = GithubUser and up = up_not_found, THEN conjunct2, THEN conjunct1] c
    by simp
  have made2: "\<exists>c. snd (serve GithubRepo sample_env up_no_status ''t'' (sample_get [])) = [c]"
    using upstream_failure_propagated [OF sample_get_admitted [of "''t''" "[]"],
        where r = GithubRepo and up = up_no_status, THEN conjunct2, THEN conjunct1] c
    by simp
  have calls1: "snd (serve GithubUser sample_env up_not_found ''t'' (sample_get [])) =
      [(UsersGetAuthenticated, JUndef)]"
    unfolding sample_serve
    by (simp add: github_user_def Let_def up_not_found_def)
  have calls2: "snd (serve GithubRepo sample_env up_no_status ''t'' (sample_get [])) =
      [(ReposGet, JObj [(''owner'', JStr ''octo''), (''repo'', JStr ''demo'')])]"
    unfolding sample_serve
    by (simp add: github_repo_def forward_def param_def sample_get_def up_no_status_def)
  have e1: "up_not_found c = Inl \<lparr>err_status = Some 404, err_message = ''Not Found''\<rparr>" for c
    by (simp add: up_not_found_def)
  have e2: "up_no_status c = Inl \<lparr>err_status = None, err_message = ''socket hang up''\<rparr>" for c
    by (simp add: up_no_status_def)
  note f1 = upstream_failure_propagated [OF sample_get_admitted [of "''t''" "[]"],
      where r = GithubUser and up = up_not_found, THEN conjunct2, THEN conjunct2, rule_format,
      OF conjI [OF calls1 e1]]
  note f2 = upstream_failure_propagated [OF sample_get_admitted [of "''t''" "[]"],
      where r = GithubRepo and up = up_no_status, THEN conjunct2, THEN conjunct2, rule_format,
      OF conjI [OF calls2 e2]]
  have "res_status (fst (serve GithubUser sample_env up_not_found ''t'' (sample_get []))) = 404
     \<and> res_field (fst (serve GithubUser sample_env up_not_found ''t'' (sample_get []))) ''message''
         = JStr ''Not Found''"
    using f1 by simp
  moreover have "res_status (fst (serve GithubRepo sample_env up_no_status ''t'' (sample_get []))) = 500
     \<and> res_field (fst (serve GithubRepo sample_env up_no_status ''t'' (sample_get []))) ''message''
         = JStr ''socket hang up''"
    using f2 by simp
  ultimately show ?thesis using calls1 calls2 made1 made2 by simp
qed

section \<open>The public status routes\<close>

text \<open>
  Claim C8, as the code has it. Neither route runs \<^verbatim>\<open>authenticate\<close> and neither
  handler reads the request, so the answer is the same whatever credentials are supplied.
  \<^verbatim>\<open>/status\<close> always answers 200 and reports \<^verbatim>\<open>github_token_configured\<close> as true
  exactly when the upstream client exists (\<^verbatim>\<open>ACESS_TOKEN\<close> set and not empty).
  \<^verbatim>\<open>/health\<close> answers 200 exactly when the client exists and the configured password is
  not the default, and 503 otherwise; it reports \<^verbatim>\<open>checks.github_api\<close> as
  \<^verbatim>\<open>configured\<close> or \<^verbatim>\<open>not_configured\<close>, and \<^verbatim>\<open>checks.authentication\<close> as
  \<^verbatim>\<open>secure\<close> or \<^verbatim>\<open>default_password\<close>.
\<close>

theorem status_routes_report_configuration:
  "get_status env proc now req = get_status env proc now req2
   \<and> res_status (get_status env proc now req) = 200
   \<and> res_field (get_status env proc now req) ''github_token_configured'' = JBool (octokit env \<noteq> None)
   \<and> get_health env proc now req = get_health env proc now req2
   \<and> res_status (get_health env proc now req) =
       (if octokit env \<noteq> None \<and> BACKEND_PASSWORD env \<noteq> default_password then 200 else 503)
   \<and> res_field (get_health env proc now req) ''checks'' = JObj
       [(''server'', JStr ''ok''),
        (''github_api'', JStr (if octokit env \<noteq> None then ''configured'' else ''not_configured'')),
        (''authentication'',
           JStr (if BACKEND_PASSWORD env \<noteq> default_password then ''secure'' else ''default_password''))]"
  unfolding octokit_configured
  by (simp add: get_status_def get_health_def res_field_def js_get_def overallHealthy_def
      health_checks_def default_password_def)

theorem status_routes_report_configuration_witness:
  "res_status (get_status bare_env sample_process ''t'' sample_request) = 200
   \<and> res_field (get_status bare_env sample_process ''t'' sample_request) ''github_token_configured'' = JBool False
   \<and> res_field (get_status sample_env sample_process ''t'' sample_request) ''github_token_configured'' = JBool True
   \<and> res_status (get_health sample_env sample_process ''t'' sample_request) = 200
   \<and> res_status (get_health bare_env sample_process ''t'' sample_request) = 503"
  using status_routes_report_configuration [of bare_env sample_process "''t''" sample_request sample_request]
    status_routes_report_configuration [of sample_env sample_process "''t''" sample_request sample_request]
  by (simp add: default_password_def)

text \<open>The claim as written fails on \<^verbatim>\<open>/health\<close> when nothing is configured: the status is
  503, and the body has no \<^verbatim>\<open>github_token_configured\<close> field.\<close>

theorem health_unconfigured_503:
  "octokit bare_env = None
   \<and> res_status (get_health bare_env sample_process ''t'' sample_request) = 503
   \<and> res_field (get_health bare_env sample_process ''t'' sample_request) ''github_token_configured'' = JUndef"
  by (simp add: get_health_def overallHealthy_iff default_password_def res_field_def js_get_def)

section \<open>Spreading caller input into the outbound call\<close>

text \<open>
  Claim C9. The generic proxy is meant to forward the request's own method and path. At
  \<^verbatim>\<open>GET /github/api/user?method=DELETE&url=/repos/octo/demo\<close>, sent with a valid
  password header, the query is spread over \<^verbatim>\<open>method\<close> and \<^verbatim>\<open>url\<close>, and the one
  outbound call is \<^verbatim>\<open>DELETE /repos/octo/demo\<close>.
\<close>

theorem proxy_query_overrides_method_and_url:
  "req_method (sample_get [(''method'', QStr ''DELETE''), (''url'', QStr ''/repos/octo/demo'')]) = ''GET''
   \<and> map_of (params (sample_get [(''method'', QStr ''DELETE''), (''url'', QStr ''/repos/octo/demo'')])) ''0'' = Some ''user''
   \<and> snd (serve GithubApi sample_env up_two_items ''t''
        (sample_get [(''method'', QStr ''DELETE''), (''url'', QStr ''/repos/octo/demo'')]))
     = [(Request, JObj [(''method'', JStr ''DELETE''), (''url'', JStr ''/repos/octo/demo'')])]"
  unfolding sample_serve
  by (simp add: github_api_def requestConfig_def spread_def AList.merge_def toUpperCase_def
      upper_char_def up_two_items_def sample_get_def)

text \<open>
  Claim C10. With a client configured, an admitted issue-update request makes one outbound
  call, \<^verbatim>\<open>issues.update\<close>, whose parameters are the body spread over the fields taken
  from the path: every key the body has, \<^verbatim>\<open>owner\<close>, \<^verbatim>\<open>repo\<close> and
  \<^verbatim>\<open>issue_number\<close> included, carries the body's value, and a key the body lacks carries
  the path's value (the owner, the repository, and \<^verbatim>\<open>parseInt\<close> of the issue number).
\<close>

theorem update_issue_body_overrides_path:
  assumes "authenticate env now req = Inr req'"
    and "octokit env \<noteq> None"
  shows "\<exists>ps. snd (serve GithubUpdateIssue env up now req) = [(IssuesUpdate, JObj ps)]
       \<and> (\<forall>k. js_get ps k =
            (case map_of (own_entries (body req)) k of
               Some v \<Rightarrow> v
             | None \<Rightarrow> js_get
                 [(''owner'', param req ''owner''),
                  (''repo'', param req ''repo''),
                  (''issue_number'',
                     JNum (parseInt (map_option QStr (map_of (params req) ''issue_number''))))] k))"
  using assms(2)
  by (auto simp: serve_admitted[OF assms(1)] github_update_issue_def Let_def js_get_spread
      split: sum.splits)

text \<open>A body that names another owner and issue, and one that names neither.\<close>

theorem update_issue_body_overrides_path_witness:
  "(\<exists>ps. snd (serve GithubUpdateIssue sample_env up_two_items ''t''
         (sample_post (JObj [(''state'', JStr ''closed''), (''owner'', JStr ''other''),
                             (''issue_number'', JNum (IntNum 99))])))
       = [(IssuesUpdate, JObj ps)]
     \<and> js_get ps ''owner'' = JStr ''other''
     \<and> js_get ps ''repo'' = JStr ''demo''
     \<and> js_get ps ''issue_number'' = JNum (IntNum 99))
   \<and> (\<exists>ps. snd (serve GithubUpdateIssue sample_env up_two_items ''t''
         (sample_post (JObj [(''state'', JStr ''closed'')])))
       = [(IssuesUpdate, JObj ps)]
     \<and> js_get ps ''owner'' = JStr ''octo''
     \<and> js_get ps ''repo'' = JStr ''demo''
     \<and> js_get ps ''issue_number'' = JNum (IntNum 7))"
proof -
  have c: "octokit sample_env \<noteq> None" by simp
  have p: "parseInt (Some (QStr ''7'')) = IntNum 7"
    by (simp add: parseInt_defs)
  have "\<exists>ps. snd (serve GithubUpdateIssue sample_env up_two_items ''t''
         (sample_post (JObj [(''state'', JStr ''closed''), (''owner'', JStr ''other''),
                             (''issue_number'', JNum (IntNum 99))])))
       = [(IssuesUpdate, JObj ps)]
     \<and> js_get ps ''owner'' = JStr ''other''
     \<and> js_get ps ''repo'' = JStr ''demo''
     \<and> js_get ps ''issue_number'' = JNum (IntNum 99)"
    using update_issue_body_overrides_path
        [OF sample_post_admitted [of "''t''" "JObj [(''state'', JStr ''closed''), (''owner'', JStr ''other''), (''issue_number'', JNum (IntNum 99))]"] c,
         of up_two_items]
    by (fastforce simp: sample_post_def param_def js_get_def)
  moreover have "\<exists>ps. snd (serve GithubUpdateIssue sample_env up_two_items ''t''
         (sample_post (JObj [(''state'', JStr ''closed'')])))
       = [(IssuesUpdate, JObj ps)]
     \<and> js_get ps ''owner'' = JStr ''octo''
     \<and> js_get ps ''repo'' = JStr ''demo''
     \<and> js_get ps ''issue_number'' = JNum (IntNum 7)"
    using update_issue_body_overrides_path
        [OF sample_post_admitted [of "''t''" "JObj [(''state'', JStr ''closed'')]"] c, of up_two_items]
    by (fastforce simp: sample_post_def param_def js_get_def p)
  ultimately show ?thesis by blast
qed

end
